theory Spec2Isabelle
  imports Complex_Main "HOL-Library.Multiset" "HOL-Library.Sublist" "HOL-Library.AList"
    "HOL-Library.Char_ord" "HOL-Library.List_Lexorder"
begin

section \<open>Strings and the character taxonomy\<close>

text \<open>
  The dashboard is written in Python; its character identifiers are Python \<^verbatim>\<open>str\<close>
  values made of CJK code points. A Python string is modelled as the list of its Unicode
  code points, so that equality, list membership (\<^verbatim>\<open>character in characters\<close>) and
  the one-character substring test (\<^verbatim>\<open>'X' in neighbor\<close>) are what Python computes.
  ASCII dictionary keys and type names stay HOL strings.
\<close>

type_synonym ustr = "nat list"

text \<open>The focal node, U+8CC8 U+6BCD (Jia Mu), written as a literal throughout the source.\<close>

definition jiamu :: ustr where
  "jiamu = [0x8CC8, 0x6BCD]"

text \<open>
  \<^verbatim>\<open>self.character_types\<close> (streamlit_page.py lines 96-101, streamlit_page_new.py
  lines 50-55; the two tables are identical). One definition per membership list, in the
  order of the dictionary literal.
\<close>

definition family_male :: "ustr list" where
  "family_male =
    [[0x8CC8, 0x653F], [0x8CC8, 0x8D66], [0x8CC8, 0x7489], [0x8CC8, 0x5BF6, 0x7389],
     [0x8CC8, 0x84C9], [0x8CC8, 0x8594], [0x8CC8, 0x862D], [0x8CC8, 0x82B8],
     [0x8CC8, 0x82B9], [0x8CC8, 0x74B0], [0x8CC8, 0x745E]]"

definition family_female :: "ustr list" where
  "family_female =
    [[0x738B, 0x592B, 0x4EBA], [0x90A2, 0x592B, 0x4EBA], [0x738B, 0x7199, 0x9CF3],
     [0x8CC8, 0x63A2, 0x6625], [0x8CC8, 0x8FCE, 0x6625], [0x8CC8, 0x60DC, 0x6625],
     [0x8CC8, 0x5143, 0x6625]]"

definition servants :: "ustr list" where
  "servants =
    [[0x82B1, 0x8972, 0x4EBA], [0x9D1B, 0x9D26], [0x6674, 0x96EF], [0x9E9D, 0x6708],
     [0x79CB, 0x7D0B], [0x78A7, 0x75D5], [0x5E73, 0x5152], [0x7D2B, 0x9D51]]"

definition guests :: "ustr list" where
  "guests =
    [[0x6797, 0x9EDB, 0x7389], [0x859B, 0x5BF6, 0x91F5], [0x53F2, 0x6E58, 0x96F2],
     [0x5999, 0x7389], [0x674E, 0x7D08], [0x79E6, 0x53EF, 0x537F], [0x9999, 0x83F1]]"

text \<open>
  A Python dictionary iterates in insertion order, so \<^verbatim>\<open>character_types.items()\<close>
  is this association list.
\<close>

definition character_types :: "(string \<times> ustr list) list" where
  "character_types =
    [(''family_male'', family_male), (''family_female'', family_female),
     (''servants'', servants), (''guests'', guests)]"

text \<open>
  \<^verbatim>\<open>get_character_type\<close>: the \<^verbatim>\<open>for type_name, characters in ...items()\<close> loop
  with its early return, then the fall-through \<^verbatim>\<open>return 'other'\<close>.
\<close>

fun first_type :: "(string \<times> ustr list) list \<Rightarrow> ustr \<Rightarrow> string" where
  "first_type [] character = ''other''"
| "first_type ((type_name, characters) # rest) character =
     (if character \<in> set characters then type_name else first_type rest character)"

definition get_character_type :: "ustr \<Rightarrow> string" where
  "get_character_type character = first_type character_types character"

section \<open>Python failures and view outcomes\<close>

text \<open>
  Every exception the modelled code can raise is a value. A view of the dashboard either
  lets an exception escape (\<open>Raises\<close>), shows a notice with \<^verbatim>\<open>st.error\<close> or
  \<^verbatim>\<open>st.warning\<close> and returns early (\<open>Reports\<close>), or runs to its end with the data it
  hands to the chart (\<open>Returns\<close>).
\<close>

datatype py_error =
  KeyError | ZeroDivisionError | NetworkXError | AttributeError
  | FileNotFoundError | JSONDecodeError

datatype notice =
  NetworkUnavailable      \<comment> \<open>"network data unavailable"\<close>
  | NoNeighbors           \<comment> \<open>"Jia Mu has no directly connected node"\<close>
  | NetworkIncomplete     \<comment> \<open>"network data incomplete"\<close>
  | MetricsUnavailable    \<comment> \<open>"metrics data unavailable"\<close>
  | LoadDataFirst         \<comment> \<open>"please load the data first"\<close>
  | VisualizationUnavailable \<comment> \<open>"visualisation unavailable"\<close>
  | NetworkXMissing       \<comment> \<open>"NetworkX library unavailable"\<close>
  | NoRelationshipData    \<comment> \<open>"no relationship data available"\<close>

datatype 'a outcome = Raises py_error | Reports notice | Returns 'a

section \<open>The reconstructed graph\<close>

text \<open>
  The snapshot's \<^verbatim>\<open>network\<close> field is networkx's node-link encoding; the code rebuilds
  it with \<^verbatim>\<open>nx.node_link_graph\<close>. networkx is a library outside the repository, so its
  undirected simple \<^verbatim>\<open>Graph\<close> is modelled from its documented data structure: the
  adjacency dictionary of dictionaries \<^verbatim>\<open>_adj\<close>, both levels insertion-ordered, here
  association lists. An edge's attribute dictionary is reduced to its \<^verbatim>\<open>weight\<close>
  entry: \<open>None\<close> when the link carries no weight. The encoding is taken to be the one of
  an undirected graph without parallel edges (\<^verbatim>\<open>directed\<close> and \<^verbatim>\<open>multigraph\<close>
  false), which is what the views' \<^verbatim>\<open>G[u][v]['weight']\<close> lookups expect.
\<close>

type_synonym edge_data = "real option"
type_synonym graph = "(ustr \<times> (ustr \<times> edge_data) list) list"

record link =
  source :: ustr
  target :: ustr
  weight :: "real option"

record node_link =
  nodes :: "ustr list"
  links :: "link list"

definition has_node :: "graph \<Rightarrow> ustr \<Rightarrow> bool" where
  "has_node G n = (n \<in> set (map fst G))"

text \<open>\<^verbatim>\<open>Graph.add_node\<close>: a node already present keeps its adjacency.\<close>

definition add_node :: "graph \<Rightarrow> ustr \<Rightarrow> graph" where
  "add_node G n = (if has_node G n then G else G @ [(n, [])])"

text \<open>\<^verbatim>\<open>self._adj[n]\<close> for a node of the graph.\<close>

definition adj :: "graph \<Rightarrow> ustr \<Rightarrow> (ustr \<times> edge_data) list" where
  "adj G n = (case map_of G n of None \<Rightarrow> [] | Some nbrs \<Rightarrow> nbrs)"

text \<open>
  \<^verbatim>\<open>self._adj[u][v] = datadict\<close>: a dictionary store keeps the position of a key that
  is already there and appends a new one, which is \<^const>\<open>AList.update\<close>.
\<close>

definition set_adj :: "graph \<Rightarrow> ustr \<Rightarrow> ustr \<Rightarrow> edge_data \<Rightarrow> graph" where
  "set_adj G u v d = AList.update u (AList.update v d (adj G u)) G"

text \<open>
  \<^verbatim>\<open>Graph.add_edge(u, v, **attr)\<close>: both end points are added when missing (\<open>u\<close>
  first), the edge's existing attributes are updated with the new ones, and the same
  dictionary is stored in both directions.
\<close>

definition add_edge :: "graph \<Rightarrow> ustr \<Rightarrow> ustr \<Rightarrow> real option \<Rightarrow> graph" where
  "add_edge G u v w =
     (let G1 = add_node (add_node G u) v;
          old = (case map_of (adj G1 u) v of None \<Rightarrow> None | Some d \<Rightarrow> d);
          datadict = (case w of None \<Rightarrow> old | Some x \<Rightarrow> Some x)
      in set_adj (set_adj G1 u v datadict) v u datadict)"

text \<open>\<^verbatim>\<open>nx.node_link_graph\<close>: all nodes first, then all links, each in file order.\<close>

definition node_link_graph :: "node_link \<Rightarrow> graph" where
  "node_link_graph d =
     fold (\<lambda>l G. add_edge G (source l) (target l) (weight l)) (links d)
       (fold (\<lambda>n G. add_node G n) (nodes d) [])"

text \<open>\<^verbatim>\<open>G.neighbors(n)\<close> raises \<^verbatim>\<open>NetworkXError\<close> for a node that is not in the graph.\<close>

definition neighbors :: "graph \<Rightarrow> ustr \<Rightarrow> py_error + ustr list" where
  "neighbors G n =
     (case map_of G n of None \<Rightarrow> Inl NetworkXError | Some nbrs \<Rightarrow> Inr (map fst nbrs))"

text \<open>\<^verbatim>\<open>G[u][v]['weight']\<close>: three dictionary lookups, each of which can raise.\<close>

definition edge_weight :: "graph \<Rightarrow> ustr \<Rightarrow> ustr \<Rightarrow> py_error + real" where
  "edge_weight G u v =
     (case map_of G u of None \<Rightarrow> Inl KeyError
      | Some nbrs \<Rightarrow>
          (case map_of nbrs v of None \<Rightarrow> Inl KeyError
           | Some None \<Rightarrow> Inl KeyError
           | Some (Some w) \<Rightarrow> Inr w))"

definition number_of_nodes :: "graph \<Rightarrow> int" where
  "number_of_nodes G = int (length G)"

text \<open>The degree of one adjacency entry: networkx counts a self-loop twice.\<close>

definition entry_degree :: "ustr \<times> (ustr \<times> edge_data) list \<Rightarrow> int" where
  "entry_degree e =
     int (length (snd e)) + (if fst e \<in> set (map fst (snd e)) then 1 else 0)"

text \<open>
  \<^verbatim>\<open>G.degree(n)\<close>, the call form the views use. For a node of the graph it is the
  node's degree. For a name that is not a node networkx does not raise: it returns a
  degree view over the characters of the name that happen to be nodes, which is not a
  number and is \<open>None\<close> here.
\<close>

definition degree_of :: "graph \<Rightarrow> ustr \<Rightarrow> int option" where
  "degree_of G n =
     (case map_of G n of None \<Rightarrow> None | Some nbrs \<Rightarrow> Some (entry_degree (n, nbrs)))"

text \<open>\<^verbatim>\<open>sum(dict(G.degree()).values())\<close>.\<close>

definition degree_sum :: "graph \<Rightarrow> int" where
  "degree_sum G = sum_list (map entry_degree G)"

text \<open>\<^verbatim>\<open>G.number_of_edges()\<close> is \<^verbatim>\<open>G.size()\<close>: half the degree sum.\<close>

definition number_of_edges :: "graph \<Rightarrow> int" where
  "number_of_edges G = degree_sum G div 2"

text \<open>
  \<^verbatim>\<open>nx.density\<close> for an undirected graph:
  \<^verbatim>\<open>if m == 0 or n <= 1: return 0\<close>, else \<^verbatim>\<open>d = m / (n * (n - 1)); d *= 2\<close>.
  Floats are idealised as reals here and below.
\<close>

definition density :: "graph \<Rightarrow> real" where
  "density G =
     (let n = number_of_nodes G; m = number_of_edges G
      in if m = 0 \<or> n \<le> 1 then 0 else real_of_int m / real_of_int (n * (n - 1)) * 2)"

text \<open>
  \<^verbatim>\<open>if self.G:\<close> on a value that is \<^verbatim>\<open>None\<close> or a graph: a networkx graph is falsy
  when it has no node (its \<^verbatim>\<open>__len__\<close> is the node count).
\<close>

definition truthy_graph :: "graph option \<Rightarrow> bool" where
  "truthy_graph G = (case G of None \<Rightarrow> False | Some g \<Rightarrow> g \<noteq> [])"

section \<open>The metrics table and the pandas operations used on it\<close>

text \<open>
  One row of \<^verbatim>\<open>df_metrics\<close>. A \<^verbatim>\<open>DataFrame\<close> is the list of its rows in index
  order; nothing makes the rows distinct.
\<close>

record metrics_row =
  character :: ustr
  weight_to_jiamu :: real
  degree :: int
  degree_centrality :: real
  betweenness_centrality :: real
  closeness_centrality :: real
  eigenvector_centrality :: real

type_synonym dataframe = "metrics_row list"

text \<open>\<^verbatim>\<open>df[df['weight_to_jiamu'] > 0].copy()\<close>: boolean-mask selection keeps row order.\<close>

definition jiamu_related :: "dataframe \<Rightarrow> dataframe" where
  "jiamu_related df = filter (\<lambda>r. weight_to_jiamu r > 0) df"

text \<open>\<^verbatim>\<open>df.head(k)\<close>: the first \<open>k\<close> rows, all of them when there are fewer.\<close>

definition head :: "nat \<Rightarrow> 'a list \<Rightarrow> 'a list" where
  "head k df = take k df"

text \<open>
  \<^verbatim>\<open>df.sort_values('weight_to_jiamu', ascending=...)\<close>. Every call in the repository
  leaves \<^verbatim>\<open>kind\<close> at its default \<^verbatim>\<open>'quicksort'\<close>, for which pandas promises a
  sorted rearrangement of the rows and nothing about ties (only \<^verbatim>\<open>'mergesort'\<close> and
  \<^verbatim>\<open>'stable'\<close> are documented as stable). The sort routine is therefore a parameter
  \<open>argsort\<close>: the rearrangement into ascending order that the chosen \<^verbatim>\<open>kind\<close>
  performs. pandas sorts descending by reversing the rows, sorting ascending and
  reversing the result.
\<close>

definition sort_values :: "(dataframe \<Rightarrow> dataframe) \<Rightarrow> bool \<Rightarrow> dataframe \<Rightarrow> dataframe" where
  "sort_values argsort ascending df =
     (if ascending then argsort df else rev (argsort (rev df)))"

text \<open>What pandas documents of every \<^verbatim>\<open>kind\<close>: the rows are rearranged into ascending order.\<close>

definition sorts_by_weight :: "(dataframe \<Rightarrow> dataframe) \<Rightarrow> bool" where
  "sorts_by_weight argsort =
     (\<forall>df. mset (argsort df) = mset df \<and> sorted (map weight_to_jiamu (argsort df)))"

text \<open>
  One routine that meets \<^const>\<open>sorts_by_weight\<close>, on which the rankings are evaluated
  at concrete tables: insertion sort by weight.
\<close>

definition stable_argsort :: "dataframe \<Rightarrow> dataframe" where
  "stable_argsort df = sort_key weight_to_jiamu df"

text \<open>
  The ranking of \<^verbatim>\<open>show_relationship_analysis\<close> in streamlit_page_new.py (lines 177-179):
  filter, sort descending, \<^verbatim>\<open>head(10)\<close>.
\<close>

definition top_10 :: "(dataframe \<Rightarrow> dataframe) \<Rightarrow> dataframe \<Rightarrow> dataframe" where
  "top_10 argsort df = head 10 (sort_values argsort False (jiamu_related df))"

text \<open>
  The ranking of \<^verbatim>\<open>create_relationship_strength_chart\<close> in streamlit_page.py
  (lines 256-260): filter, sort ascending, \<^verbatim>\<open>head(15)\<close>.
\<close>

definition top_15 :: "(dataframe \<Rightarrow> dataframe) \<Rightarrow> dataframe \<Rightarrow> dataframe" where
  "top_15 argsort df = head 15 (sort_values argsort True (jiamu_related df))"

text \<open>
  The rows of the centrality comparison: \<^verbatim>\<open>create_centrality_comparison_chart\<close> in
  streamlit_page.py (lines 332-335) takes \<^verbatim>\<open>head(10)\<close> of the filtered table,
  \<^verbatim>\<open>show_centrality_analysis\<close> in streamlit_page_new.py (line 272) takes
  \<^verbatim>\<open>head(8)\<close>. Neither sorts.
\<close>

definition centrality_top_10 :: "dataframe \<Rightarrow> dataframe" where
  "centrality_top_10 df = head 10 (jiamu_related df)"

definition valid_chars :: "dataframe \<Rightarrow> dataframe" where
  "valid_chars df = head 8 (filter (\<lambda>r. weight_to_jiamu r > 0) df)"

section \<open>The snapshot and the loaders\<close>

text \<open>
  The parsed artifact \<^verbatim>\<open>step3_data\<close>. A top-level key can be missing (\<open>None\<close>);
  a key that is present holds a value of the expected shape. \<^verbatim>\<open>metrics\<close> is the
  dictionary that may hold the \<^verbatim>\<open>jiamu_metrics\<close> entry.
\<close>

record centrality =
  jm_degree_centrality :: real
  jm_betweenness_centrality :: real
  jm_closeness_centrality :: real
  jm_eigenvector_centrality :: real

type_synonym metrics_dict = "centrality option"

record type_analysis =
  total_weight :: real
  character_count :: int

record step3_data =
  network :: "node_link option"
  metrics :: "metrics_dict option"
  df_metrics :: "dataframe option"
  relationship_type_analysis :: "(string \<times> type_analysis) list option"

text \<open>What is at \<^verbatim>\<open>output/step3_data.json\<close>: nothing, a file that is not JSON, or a snapshot.\<close>

datatype artifact = NoFile | Unparsable | Parsed step3_data

text \<open>
  The attributes of the application object. An attribute that was never assigned is
  \<open>Unset\<close> (reading it raises \<^verbatim>\<open>AttributeError\<close>); Python's \<^verbatim>\<open>None\<close> is the
  \<open>None\<close> inside. \<open>self_load_error\<close> is not an attribute: it records the exception that
  \<^verbatim>\<open>load_data\<close> caught and reported as "data loading failed" (for a missing file in
  streamlit_page_new.py, the "file does not exist" report). Only the class of
  streamlit_page_new.py has \<^verbatim>\<open>data_loaded\<close>; for streamlit_page.py the field mirrors
  the success banner and no view reads it.
\<close>

datatype 'a attr = Unset | Attr 'a

record app =
  self_data_loaded :: bool
  self_G :: "graph option"
  self_metrics :: "metrics_dict attr"
  self_df_metrics :: "dataframe option attr"
  self_relationship_type_analysis :: "(string \<times> type_analysis) list attr"
  self_load_error :: "py_error option"

text \<open>\<^verbatim>\<open>pd.DataFrame(rows) if rows else None\<close>: an empty list is falsy.\<close>

definition dataframe_or_none :: "dataframe \<Rightarrow> dataframe option" where
  "dataframe_or_none rows = (if rows \<noteq> [] then Some rows else None)"

text \<open>
  \<^verbatim>\<open>load_data\<close> of streamlit_page.py (lines 63-82). The three subscripts
  \<^verbatim>\<open>step3_data['network']\<close>, \<^verbatim>\<open>['metrics']\<close> and \<^verbatim>\<open>['df_metrics']\<close> raise
  \<^verbatim>\<open>KeyError\<close> on a missing key; the \<^verbatim>\<open>except\<close> clause reports the failure and sets
  \<^verbatim>\<open>self.G = None\<close>, leaving every attribute not yet assigned unset. A node-link
  dictionary is never empty, so \<^verbatim>\<open>if self.step3_data['network']\<close> holds whenever the
  key is there.
\<close>

definition load_failed :: "py_error \<Rightarrow> metrics_dict attr \<Rightarrow> app" where
  "load_failed e m =
     \<lparr>self_data_loaded = False, self_G = None, self_metrics = m, self_df_metrics = Unset,
      self_relationship_type_analysis = Unset, self_load_error = Some e\<rparr>"

definition load_data_page :: "artifact \<Rightarrow> app" where
  "load_data_page file =
     (case file of
        NoFile \<Rightarrow> load_failed FileNotFoundError Unset
      | Unparsable \<Rightarrow> load_failed JSONDecodeError Unset
      | Parsed d \<Rightarrow>
          (case network d of
             None \<Rightarrow> load_failed KeyError Unset
           | Some nl \<Rightarrow>
               (case metrics d of
                  None \<Rightarrow> load_failed KeyError Unset
                | Some m \<Rightarrow>
                    (case df_metrics d of
                       None \<Rightarrow> load_failed KeyError (Attr m)
                     | Some rows \<Rightarrow>
                         \<lparr>self_data_loaded = True,
                          self_G = Some (node_link_graph nl),
                          self_metrics = Attr m,
                          self_df_metrics = Attr (dataframe_or_none rows),
                          self_relationship_type_analysis =
                            Attr (case relationship_type_analysis d of None \<Rightarrow> [] | Some t \<Rightarrow> t),
                          self_load_error = None\<rparr>))))"

text \<open>
  \<^verbatim>\<open>__init__\<close> and \<^verbatim>\<open>load_data\<close> of streamlit_page_new.py (lines 31-37, 57-83): the
  existence check, then \<^verbatim>\<open>.get\<close> on every key. \<open>networkx_available\<close> is the module
  flag \<^verbatim>\<open>NETWORKX_AVAILABLE\<close>.
\<close>

definition init_new :: app where
  "init_new =
     \<lparr>self_data_loaded = False, self_G = None, self_metrics = Attr None,
      self_df_metrics = Attr None, self_relationship_type_analysis = Attr [],
      self_load_error = None\<rparr>"

definition load_data_new :: "bool \<Rightarrow> artifact \<Rightarrow> app" where
  "load_data_new networkx_available file =
     (case file of
        NoFile \<Rightarrow> init_new\<lparr>self_load_error := Some FileNotFoundError\<rparr>
      | Unparsable \<Rightarrow> init_new\<lparr>self_load_error := Some JSONDecodeError\<rparr>
      | Parsed d \<Rightarrow>
          \<lparr>self_data_loaded = True,
           self_G = (case network d of
                       None \<Rightarrow> None
                     | Some nl \<Rightarrow> if networkx_available then Some (node_link_graph nl) else None),
           self_metrics = Attr (case metrics d of None \<Rightarrow> None | Some m \<Rightarrow> m),
           self_df_metrics =
             Attr (case df_metrics d of None \<Rightarrow> None | Some rows \<Rightarrow> dataframe_or_none rows),
           self_relationship_type_analysis =
             Attr (case relationship_type_analysis d of None \<Rightarrow> [] | Some t \<Rightarrow> t),
           self_load_error = None\<rparr>)"

section \<open>The radial layout\<close>

text \<open>
  \<^verbatim>\<open>create_central_network_plot\<close> of streamlit_page.py, lines 127-139. \<open>pos\<close> is a
  dictionary, so storing a node that already has a position overwrites it in place.
\<close>

type_synonym positions = "(ustr \<times> real \<times> real) list"

definition radius :: real where
  "radius = 2.0"

fun place :: "real \<Rightarrow> (nat \<times> ustr) list \<Rightarrow> positions \<Rightarrow> positions" where
  "place angle_step [] pos = pos"
| "place angle_step ((i, node) # rest) pos =
     (let angle = real i * angle_step;
          x = radius * cos angle;
          y = radius * sin angle
      in place angle_step rest (AList.update node (x, y) pos))"

definition circular_layout :: "ustr list \<Rightarrow> positions" where
  "circular_layout jiamu_neighbors =
     (let pos = [(jiamu, (0, 0))];
          angle_step = 2 * pi / real (length jiamu_neighbors)
      in place angle_step (enumerate 0 jiamu_neighbors) pos)"

text \<open>
  The whole function (lines 110-247), with the figure it returns reduced to the layout it
  is drawn from. After the layout the function reads \<^verbatim>\<open>self.G['...'][node]['weight']\<close>
  for every node of the subgraph other than the focal one, that is for every neighbour,
  and a missing weight raises \<^verbatim>\<open>KeyError\<close>.
\<close>

definition create_central_network_plot :: "app \<Rightarrow> positions outcome" where
  "create_central_network_plot self =
     (case self_G self of
        None \<Rightarrow> Reports NetworkUnavailable
      | Some G \<Rightarrow>
          (case neighbors G jiamu of
             Inl e \<Rightarrow> Raises e
           | Inr jiamu_neighbors \<Rightarrow>
               if jiamu_neighbors = [] then Reports NoNeighbors
               else
                 (let pos = circular_layout jiamu_neighbors
                  in if list_ex (\<lambda>node. node \<noteq> jiamu \<and> edge_weight G jiamu node = Inl KeyError)
                          jiamu_neighbors
                     then Raises KeyError
                     else Returns pos)))"

section \<open>Aggregation by category\<close>

text \<open>
  The loop that builds \<^verbatim>\<open>neighbor_data\<close> (streamlit_page_new.py lines 216-223,
  stream_page_new1.py lines 183-197): one row per neighbour, with the edge weight and the
  type the variant's classification gives.
\<close>

fun neighbor_data :: "(ustr \<Rightarrow> 'k) \<Rightarrow> graph \<Rightarrow> ustr list \<Rightarrow> py_error + (ustr \<times> real \<times> 'k) list" where
  "neighbor_data classify G [] = Inr []"
| "neighbor_data classify G (neighbor # rest) =
     (case edge_weight G jiamu neighbor of
        Inl e \<Rightarrow> Inl e
      | Inr w \<Rightarrow>
          (case neighbor_data classify G rest of
             Inl e \<Rightarrow> Inl e
           | Inr rows \<Rightarrow> Inr ((neighbor, w, classify neighbor) # rows)))"

text \<open>
  \<^verbatim>\<open>df_neighbors.groupby('type')['weight'].sum().reset_index()\<close>: one row per type
  that occurs, in sorted key order, with the sum of that type's weights.
\<close>

definition groupby_sum :: "(ustr \<times> real \<times> 'k::linorder) list \<Rightarrow> ('k \<times> real) list" where
  "groupby_sum df_neighbors =
     map (\<lambda>k. (k, sum_list (map (\<lambda>r. fst (snd r)) (filter (\<lambda>r. snd (snd r) = k) df_neighbors))))
       (sort (remdups (map (\<lambda>r. snd (snd r)) df_neighbors)))"

text \<open>
  \<^verbatim>\<open>show_network_visualization\<close> of streamlit_page_new.py (lines 198-251). There is no
  check for an empty neighbour list: \<^verbatim>\<open>pd.DataFrame([])\<close> has no columns, and
  \<^verbatim>\<open>groupby('type')\<close> on it raises \<^verbatim>\<open>KeyError\<close>. When the last \<^verbatim>\<open>if\<close> fails the
  function ends without showing anything (\<open>Returns None\<close>).
\<close>

definition show_network_visualization ::
  "bool \<Rightarrow> app \<Rightarrow> ((string \<times> real) list \<times> (ustr \<times> real \<times> string) list) option outcome" where
  "show_network_visualization networkx_available self =
     (if \<not> self_data_loaded self \<or> \<not> networkx_available \<or> self_G self = None then
        (if \<not> networkx_available then Reports NetworkXMissing else Reports NetworkUnavailable)
      else
        (case self_G self of
           None \<Rightarrow> Reports NetworkUnavailable
         | Some G \<Rightarrow>
             if truthy_graph (Some G) \<and> has_node G jiamu then
               (case neighbors G jiamu of
                  Inl e \<Rightarrow> Raises e
                | Inr nbrs \<Rightarrow>
                    (case neighbor_data get_character_type G nbrs of
                       Inl e \<Rightarrow> Raises e
                     | Inr df_neighbors \<Rightarrow>
                         if df_neighbors = [] then Raises KeyError
                         else Returns (Some (groupby_sum df_neighbors, df_neighbors))))
             else Returns None))"

text \<open>
  The classification written out in \<^verbatim>\<open>show_simple_network_viz\<close> of
  stream_page_new1.py (lines 186-191): substring tests for U+8CC8, then U+4EBA or U+5152.
  The labels are "family member", "servant" and "guest" in Chinese.
\<close>

definition simple_type :: "ustr \<Rightarrow> ustr" where
  "simple_type neighbor =
     (if 0x8CC8 \<in> set neighbor then [0x5BB6, 0x65CF, 0x6210, 0x54E1]
      else if 0x4EBA \<in> set neighbor \<or> 0x5152 \<in> set neighbor then [0x50D5, 0x4EBA]
      else [0x5BA2, 0x4EBA])"

text \<open>
  \<^verbatim>\<open>show_simple_network_viz\<close> of stream_page_new1.py (lines 163-215), with its guards
  for a missing graph, a missing focal node and an empty neighbour list.
  \<open>plotly_available\<close> is the module flag \<^verbatim>\<open>PLOTLY_AVAILABLE\<close>.
\<close>

definition show_simple_network_viz ::
  "bool \<Rightarrow> bool \<Rightarrow> graph option \<Rightarrow> ((ustr \<times> real) list \<times> (ustr \<times> real \<times> ustr) list) outcome" where
  "show_simple_network_viz plotly_available data_loaded G_opt =
     (if \<not> data_loaded \<or> \<not> plotly_available then Reports VisualizationUnavailable
      else
        (case G_opt of
           None \<Rightarrow> Reports NetworkIncomplete
         | Some G \<Rightarrow>
             if \<not> has_node G jiamu then Reports NetworkIncomplete
             else
               (case neighbors G jiamu of
                  Inl e \<Rightarrow> Raises e
                | Inr nbrs \<Rightarrow>
                    if nbrs = [] then Reports NoNeighbors
                    else
                      (case neighbor_data simple_type G nbrs of
                         Inl e \<Rightarrow> Raises e
                       | Inr df_neighbors \<Rightarrow>
                           Returns (groupby_sum df_neighbors, df_neighbors)))))"

section \<open>Graph statistics views\<close>

text \<open>True division \<^verbatim>\<open>a / b\<close> of two Python integers.\<close>

definition py_truediv :: "int \<Rightarrow> int \<Rightarrow> py_error + real" where
  "py_truediv a b = (if b = 0 then Inl ZeroDivisionError else Inr (real_of_int a / real_of_int b))"

text \<open>\<^verbatim>\<open>self.metrics['jiamu_metrics']\<close>, read from the attribute.\<close>

definition jiamu_metrics :: "metrics_dict attr \<Rightarrow> py_error + centrality" where
  "jiamu_metrics m =
     (case m of
        Unset \<Rightarrow> Inl AttributeError
      | Attr None \<Rightarrow> Inl KeyError
      | Attr (Some c) \<Rightarrow> Inr c)"

text \<open>
  The loop collecting \<^verbatim>\<open>(neighbor, weight)\<close> pairs (streamlit_page.py lines 406-409).
\<close>

fun neighbor_strengths :: "graph \<Rightarrow> ustr list \<Rightarrow> py_error + (ustr \<times> real) list" where
  "neighbor_strengths G [] = Inr []"
| "neighbor_strengths G (neighbor # rest) =
     (case edge_weight G jiamu neighbor of
        Inl e \<Rightarrow> Inl e
      | Inr w \<Rightarrow>
          (case neighbor_strengths G rest of
             Inl e \<Rightarrow> Inl e
           | Inr pairs \<Rightarrow> Inr ((neighbor, w) # pairs)))"

text \<open>
  \<^verbatim>\<open>list.sort(key=lambda x: x[1], reverse=True)\<close>: Python's list sort is stable, also
  with \<^verbatim>\<open>reverse=True\<close>.
\<close>

definition sort_reverse :: "(ustr \<times> real) list \<Rightarrow> (ustr \<times> real) list" where
  "sort_reverse pairs = rev (sort_key snd (rev pairs))"

record network_statistics =
  node_count :: int
  edge_count :: int
  network_density :: real
  average_degree :: real
  jiamu_degree :: "int option"
  top_relationships :: "(ustr \<times> real) list"
  shown_metrics :: centrality

text \<open>
  \<^verbatim>\<open>display_network_statistics\<close> of streamlit_page.py (lines 389-458), statement by
  statement: the only guard is \<^verbatim>\<open>self.G is None\<close>. \<^verbatim>\<open>jiamu_degree\<close> is computed
  and not shown.
\<close>

definition display_network_statistics :: "app \<Rightarrow> network_statistics outcome" where
  "display_network_statistics self =
     (case self_G self of
        None \<Rightarrow> Reports NetworkUnavailable
      | Some G \<Rightarrow>
          (let n = number_of_nodes G;
               m = number_of_edges G;
               d = density G
           in case py_truediv (degree_sum G) n of
                Inl e \<Rightarrow> Raises e
              | Inr avg \<Rightarrow>
                  (let deg = degree_of G jiamu
                   in case neighbors G jiamu of
                        Inl e \<Rightarrow> Raises e
                      | Inr nbrs \<Rightarrow>
                          (case neighbor_strengths G nbrs of
                             Inl e \<Rightarrow> Raises e
                           | Inr pairs \<Rightarrow>
                               (case jiamu_metrics (self_metrics self) of
                                  Inl e \<Rightarrow> Raises e
                                | Inr c \<Rightarrow>
                                    Returns
                                      \<lparr>node_count = n, edge_count = m, network_density = d,
                                       average_degree = avg, jiamu_degree = deg,
                                       top_relationships = take 10 (sort_reverse pairs),
                                       shown_metrics = c\<rparr>)))))"

text \<open>
  The four statistics of \<^verbatim>\<open>show_network_overview\<close> in streamlit_page_new.py
  (lines 116-151); \<open>None\<close> is the placeholder "N/A". Each is guarded by
  \<^verbatim>\<open>if self.G\<close>, the degree also by \<^verbatim>\<open>'...' in self.G\<close>; there is no average
  degree.
\<close>

record overview =
  shown_nodes :: "int option"
  shown_edges :: "int option"
  shown_density :: "real option"
  shown_degree :: "int option"

definition show_network_overview :: "app \<Rightarrow> overview outcome" where
  "show_network_overview self =
     (if \<not> self_data_loaded self then Reports LoadDataFirst
      else
        (case self_G self of
           None \<Rightarrow>
             Returns \<lparr>shown_nodes = None, shown_edges = None, shown_density = None,
                      shown_degree = None\<rparr>
         | Some G \<Rightarrow>
             if \<not> truthy_graph (Some G) then
               Returns \<lparr>shown_nodes = None, shown_edges = None, shown_density = None,
                        shown_degree = None\<rparr>
             else
               Returns
                 \<lparr>shown_nodes = Some (number_of_nodes G),
                  shown_edges = Some (number_of_edges G),
                  shown_density = Some (density G),
                  shown_degree = (if has_node G jiamu then degree_of G jiamu else None)\<rparr>))"

section \<open>Example data\<close>

text \<open>
  Concrete inputs on which the theorems below are evaluated. \<open>example_row\<close> fills the
  columns that no ranking reads; the characters are the one-letter names of the spec's
  scenario (F, A, B).
\<close>

definition example_row :: "ustr \<Rightarrow> real \<Rightarrow> metrics_row" where
  "example_row c w =
     \<lparr>character = c, weight_to_jiamu = w, degree = 1, degree_centrality = 0,
      betweenness_centrality = 0, closeness_centrality = 0, eigenvector_centrality = 0\<rparr>"

definition scenario_table :: dataframe where
  "scenario_table = [example_row [0x46] 0, example_row [0x41] 3, example_row [0x42] 5]"

definition late_strong_table :: dataframe where
  "late_strong_table =
     [example_row [0x41] 1, example_row [0x42] 0, example_row [0x43] 1, example_row [0x44] 1,
      example_row [0x45] 1, example_row [0x46] 1, example_row [0x47] 1, example_row [0x48] 1,
      example_row [0x49] 1, example_row [0x4A] 1, example_row [0x4B] 1, example_row [0x4C] 9]"

definition late_weak_table :: dataframe where
  "late_weak_table =
     [example_row [0x41] 9, example_row [0x42] 0, example_row [0x43] 8, example_row [0x44] 7,
      example_row [0x45] 6, example_row [0x46] 5, example_row [0x47] 4, example_row [0x48] 3,
      example_row [0x49] 2, example_row [0x4A] 2, example_row [0x4B] 2, example_row [0x4C] 1]"

text \<open>Two names of the \<^verbatim>\<open>guests\<close> list: U+6797 U+9EDB U+7389 and U+859B U+5BF6 U+91F5.\<close>

definition lin_daiyu :: ustr where
  "lin_daiyu = [0x6797, 0x9EDB, 0x7389]"

definition xue_baochai :: ustr where
  "xue_baochai = [0x859B, 0x5BF6, 0x91F5]"

text \<open>
  The spec's scenario, with real names: the focal node linked to two neighbours with
  weights 3 and 5.
\<close>

definition scenario_network :: node_link where
  "scenario_network =
     \<lparr>nodes = [jiamu, lin_daiyu, xue_baochai],
      links = [\<lparr>source = jiamu, target = lin_daiyu, weight = Some 3\<rparr>,
               \<lparr>source = jiamu, target = xue_baochai, weight = Some 5\<rparr>]\<rparr>"

text \<open>A network whose focal node has a link to itself besides one neighbour.\<close>

definition self_loop_network :: node_link where
  "self_loop_network =
     \<lparr>nodes = [jiamu, lin_daiyu],
      links = [\<lparr>source = jiamu, target = jiamu, weight = Some 1\<rparr>,
               \<lparr>source = jiamu, target = lin_daiyu, weight = Some 3\<rparr>]\<rparr>"

text \<open>A network without the focal node, one where it has no link, and one without nodes.\<close>

definition no_focal_network :: node_link where
  "no_focal_network =
     \<lparr>nodes = [lin_daiyu, xue_baochai],
      links = [\<lparr>source = lin_daiyu, target = xue_baochai, weight = Some 1\<rparr>]\<rparr>"

definition isolated_network :: node_link where
  "isolated_network =
     \<lparr>nodes = [jiamu, lin_daiyu, xue_baochai],
      links = [\<lparr>source = lin_daiyu, target = xue_baochai, weight = Some 1\<rparr>]\<rparr>"

definition empty_network :: node_link where
  "empty_network = \<lparr>nodes = [], links = []\<rparr>"

text \<open>A complete snapshot around a network, and one that lacks the \<^verbatim>\<open>metrics\<close> key.\<close>

definition example_centrality :: centrality where
  "example_centrality =
     \<lparr>jm_degree_centrality = 1, jm_betweenness_centrality = 1,
      jm_closeness_centrality = 1, jm_eigenvector_centrality = 1\<rparr>"

definition snapshot_of :: "node_link \<Rightarrow> step3_data" where
  "snapshot_of nl =
     \<lparr>network = Some nl, metrics = Some (Some example_centrality),
      df_metrics = Some scenario_table, relationship_type_analysis = Some []\<rparr>"

definition no_metrics_snapshot :: step3_data where
  "no_metrics_snapshot =
     \<lparr>network = Some scenario_network, metrics = None,
      df_metrics = Some scenario_table, relationship_type_analysis = Some []\<rparr>"

section \<open>Invariants of a reconstructed graph\<close>

text \<open>
  What every graph built by \<^const>\<open>node_link_graph\<close> satisfies: node names are unique,
  and each adjacency dictionary has unique keys that are nodes of the graph. A graph is
  loop-free when no node is its own neighbour.
\<close>

definition wf_graph :: "graph \<Rightarrow> bool" where
  "wf_graph G =
     (distinct (map fst G) \<and>
      (\<forall>n nbrs. map_of G n = Some nbrs \<longrightarrow>
         distinct (map fst nbrs) \<and> fst ` set nbrs \<subseteq> fst ` set G))"

definition loop_free :: "graph \<Rightarrow> bool" where
  "loop_free G = (\<forall>n nbrs. map_of G n = Some nbrs \<longrightarrow> n \<notin> fst ` set nbrs)"

section \<open>Properties of the classifier\<close>

lemma first_type_find:
  "first_type tbl c =
     (case find (\<lambda>(t, cs). c \<in> set cs) tbl of None \<Rightarrow> ''other'' | Some (t, cs) \<Rightarrow> t)"
  by (induction tbl c rule: first_type.induct) auto

lemma membership_lists_disjoint:
  "set family_male \<inter> set family_female = {}"
  "set family_male \<inter> set servants = {}"
  "set family_male \<inter> set guests = {}"
  "set family_female \<inter> set servants = {}"
  "set family_female \<inter> set guests = {}"
  "set servants \<inter> set guests = {}"
  by (simp_all add: family_male_def family_female_def servants_def guests_def)

text \<open>
  C4. \<^verbatim>\<open>get_character_type\<close> is a total function of the identifier alone. It tries the
  membership lists in the order family_male, family_female, servants, guests, the first
  list that holds the identifier gives the type, and an identifier in no list is
  \<^verbatim>\<open>'other'\<close>. Because the four lists share no name, every listed identifier gets
  the type of its own list.
\<close>

theorem get_character_type_priority:
  "get_character_type c =
     (if c \<in> set family_male then ''family_male''
      else if c \<in> set family_female then ''family_female''
      else if c \<in> set servants then ''servants''
      else if c \<in> set guests then ''guests''
      else ''other'')
   \<and> (get_character_type c = ''family_male'') = (c \<in> set family_male)
   \<and> (get_character_type c = ''family_female'') = (c \<in> set family_female)
   \<and> (get_character_type c = ''servants'') = (c \<in> set servants)
   \<and> (get_character_type c = ''guests'') = (c \<in> set guests)
   \<and> (get_character_type c = ''other'') =
       (c \<notin> set family_male \<union> set family_female \<union> set servants \<union> set guests)"
proof -
  have chain: "get_character_type c =
     (if c \<in> set family_male then ''family_male''
      else if c \<in> set family_female then ''family_female''
      else if c \<in> set servants then ''servants''
      else if c \<in> set guests then ''guests''
      else ''other'')"
    by (simp add: get_character_type_def character_types_def)
  show ?thesis
    using membership_lists_disjoint by (auto simp: chain)
qed

theorem get_character_type_witness:
  "get_character_type [0x6797, 0x9EDB, 0x7389] = ''guests''
   \<and> get_character_type [0x8CC8, 0x63A2, 0x6625] = ''family_female''
   \<and> get_character_type jiamu = ''other''"
  using get_character_type_priority[of "[0x6797, 0x9EDB, 0x7389]"]
    get_character_type_priority[of "[0x8CC8, 0x63A2, 0x6625]"]
    get_character_type_priority[of jiamu]
  by (simp add: family_male_def family_female_def servants_def guests_def jiamu_def)

section \<open>Ranking by weight\<close>

lemma sorts_by_weight_stable_argsort: "sorts_by_weight stable_argsort"
  by (simp add: sorts_by_weight_def stable_argsort_def)

lemma sort_values_mset:
  "sorts_by_weight argsort \<Longrightarrow> mset (sort_values argsort asc df) = mset df"
  by (simp add: sorts_by_weight_def sort_values_def)

lemma sort_values_descending:
  "sorts_by_weight argsort \<Longrightarrow>
     sorted_wrt (\<ge>) (map weight_to_jiamu (sort_values argsort False df))"
  by (simp add: sorts_by_weight_def sort_values_def sorted_wrt_rev flip: rev_map)

lemma sorted_wrt_take: "sorted_wrt P xs \<Longrightarrow> sorted_wrt P (take k xs)"
  by (metis append_take_drop_id sorted_wrt_append)

lemma sort_values_ascending:
  "sorts_by_weight argsort \<Longrightarrow> sorted (map weight_to_jiamu (sort_values argsort True df))"
  by (simp add: sorts_by_weight_def sort_values_def)

text \<open>
  The ascending ranking of streamlit_page.py: at most 15 rows, all with a weight above 0,
  weights never decreasing.
\<close>

lemma top_15_ranking:
  assumes "sorts_by_weight argsort"
  shows "length (top_15 argsort df) \<le> 15"
    and "list_all (\<lambda>r. weight_to_jiamu r > 0) (top_15 argsort df)"
    and "sorted (map weight_to_jiamu (top_15 argsort df))"
proof -
  let ?s = "sort_values argsort True (jiamu_related df)"
  have ms: "mset ?s = mset (jiamu_related df)"
    using assms by (rule sort_values_mset)
  have sub: "set (take 15 ?s) \<subseteq> set (jiamu_related df)"
    using ms by (metis set_take_subset mset_eq_setD)
  show "length (top_15 argsort df) \<le> 15"
    by (simp add: top_15_def head_def)
  show "list_all (\<lambda>r. weight_to_jiamu r > 0) (top_15 argsort df)"
    using sub by (auto simp: top_15_def head_def list_all_iff jiamu_related_def)
  show "sorted (map weight_to_jiamu (top_15 argsort df))"
    using sort_values_ascending[OF assms, of "jiamu_related df"]
    by (simp add: top_15_def head_def sorted_wrt_take flip: take_map)
qed

text \<open>
  C2. Whatever sort routine pandas runs, as long as it sorts: the ranking of
  \<^verbatim>\<open>show_relationship_analysis\<close> (filter, sort descending, \<^verbatim>\<open>head(10)\<close>) has at
  most 10 rows, every row has a weight above 0, the weights never increase down the
  list, the rows are rows of the filtered table, and when the filtered table has at most
  10 rows the ranking holds exactly those rows.
\<close>

theorem top_10_ranking:
  assumes "sorts_by_weight argsort"
  shows "length (top_10 argsort df) \<le> 10
       \<and> list_all (\<lambda>r. weight_to_jiamu r > 0) (top_10 argsort df)
       \<and> sorted_wrt (\<ge>) (map weight_to_jiamu (top_10 argsort df))
       \<and> mset (top_10 argsort df) \<subseteq># mset (jiamu_related df)
       \<and> (length (jiamu_related df) \<le> 10 \<longrightarrow>
            mset (top_10 argsort df) = mset (jiamu_related df))"
proof -
  let ?s = "sort_values argsort False (jiamu_related df)"
  have ms: "mset ?s = mset (jiamu_related df)"
    using assms by (rule sort_values_mset)
  have len: "length ?s = length (jiamu_related df)"
    using ms by (metis size_mset)
  have sub: "set (take 10 ?s) \<subseteq> set (jiamu_related df)"
    using ms by (metis set_take_subset mset_eq_setD)
  have pos: "list_all (\<lambda>r. weight_to_jiamu r > 0) (top_10 argsort df)"
    using sub by (auto simp: top_10_def head_def list_all_iff jiamu_related_def)
  have srt: "sorted_wrt (\<ge>) (map weight_to_jiamu (top_10 argsort df))"
    using sort_values_descending[OF assms, of "jiamu_related df"]
    by (simp add: top_10_def head_def sorted_wrt_take flip: take_map)
  have subm: "mset (top_10 argsort df) \<subseteq># mset (jiamu_related df)"
    unfolding top_10_def head_def using ms
    by (metis append_take_drop_id mset_append mset_subset_eq_add_left)
  have all: "length (jiamu_related df) \<le> 10 \<Longrightarrow>
       mset (top_10 argsort df) = mset (jiamu_related df)"
    using ms len by (simp add: top_10_def head_def)
  show ?thesis
    using pos srt subm all by (simp add: top_10_def head_def)
qed

theorem top_10_ranking_witness:
  "sorts_by_weight stable_argsort
   \<and> length (jiamu_related scenario_table) \<le> 10
   \<and> length (top_10 stable_argsort scenario_table) \<le> 10
   \<and> list_all (\<lambda>r. weight_to_jiamu r > 0) (top_10 stable_argsort scenario_table)
   \<and> sorted_wrt (\<ge>) (map weight_to_jiamu (top_10 stable_argsort scenario_table))
   \<and> mset (top_10 stable_argsort scenario_table) = mset (jiamu_related scenario_table)
   \<and> map character (top_10 stable_argsort scenario_table) = [[0x42], [0x41]]"
proof -
  have h: "sorts_by_weight stable_argsort"
    by (rule sorts_by_weight_stable_argsort)
  have l: "length (jiamu_related scenario_table) \<le> 10"
    by (simp add: jiamu_related_def scenario_table_def example_row_def)
  have v: "map character (top_10 stable_argsort scenario_table) = [[0x42], [0x41]]"
    by (simp add: top_10_def head_def sort_values_def stable_argsort_def jiamu_related_def
        scenario_table_def example_row_def)
  show ?thesis
    using top_10_ranking[OF h, of scenario_table] h l v by simp
qed

section \<open>Rows of the centrality comparison\<close>

lemma map_filter_same_mask:
  "map f xs = map f ys \<Longrightarrow> map p xs = map p ys \<Longrightarrow>
     map f (filter p xs) = map f (filter p ys)"
proof (induction xs arbitrary: ys)
  case Nil
  then show ?case by simp
next
  case (Cons x xs)
  then obtain y ys' where ys: "ys = y # ys'" by (cases ys) auto
  with Cons.prems have "f x = f y" "p x = p y" "map f xs = map f ys'" "map p xs = map p ys'"
    by auto
  with Cons.IH[of ys'] ys show ?case by simp
qed

text \<open>
  C10. Both centrality comparisons take the first rows of the table filtered to weights
  above 0 (10 rows in streamlit_page.py, 8 in streamlit_page_new.py), in table order and
  without sorting: the selection is an initial part of the filtered table and a
  subsequence of the table. Which characters are selected depends only on the order of
  the rows and on which weights are positive, so two tables that agree on those select
  the same characters whatever the weights are.
\<close>

theorem centrality_rows_in_table_order:
  "centrality_top_10 df = take 10 (filter (\<lambda>r. weight_to_jiamu r > 0) df)
   \<and> valid_chars df = take 8 (filter (\<lambda>r. weight_to_jiamu r > 0) df)
   \<and> prefix (centrality_top_10 df) (jiamu_related df)
   \<and> prefix (valid_chars df) (jiamu_related df)
   \<and> subseq (centrality_top_10 df) df
   \<and> subseq (valid_chars df) df
   \<and> (map character df' = map character df
        \<and> map (\<lambda>r. weight_to_jiamu r > 0) df' = map (\<lambda>r. weight_to_jiamu r > 0) df
       \<longrightarrow> map character (centrality_top_10 df') = map character (centrality_top_10 df)
           \<and> map character (valid_chars df') = map character (valid_chars df))"
proof -
  have p: "prefix (take k (jiamu_related df)) (jiamu_related df)" for k
    by (rule take_is_prefix)
  have s: "subseq (take k (jiamu_related df)) df" for k
    by (metis jiamu_related_def subseq_filter_left subseq_order.order_trans
        prefix_imp_subseq take_is_prefix)
  have m: "map character (take k (jiamu_related df')) = map character (take k (jiamu_related df))"
    if "map character df' = map character df"
      "map (\<lambda>r. weight_to_jiamu r > 0) df' = map (\<lambda>r. weight_to_jiamu r > 0) df" for k
    using map_filter_same_mask[OF that] by (simp add: jiamu_related_def flip: take_map)
  show ?thesis
    using p s m
    by (simp add: centrality_top_10_def valid_chars_def head_def jiamu_related_def)
qed

theorem centrality_rows_witness:
  "map character late_strong_table = map character late_weak_table
   \<and> map (\<lambda>r. weight_to_jiamu r > 0) late_strong_table =
       map (\<lambda>r. weight_to_jiamu r > 0) late_weak_table
   \<and> map character (centrality_top_10 late_strong_table) =
       map character (centrality_top_10 late_weak_table)
   \<and> map character (centrality_top_10 late_strong_table) =
       [[0x41], [0x43], [0x44], [0x45], [0x46], [0x47], [0x48], [0x49], [0x4A], [0x4B]]
   \<and> map character (valid_chars late_strong_table) =
       [[0x41], [0x43], [0x44], [0x45], [0x46], [0x47], [0x48], [0x49]]
   \<and> hd (map character (top_10 stable_argsort late_strong_table)) = [0x4C]"
proof -
  have a: "map character late_strong_table = map character late_weak_table"
    by (simp add: late_strong_table_def late_weak_table_def example_row_def)
  have b: "map (\<lambda>r. weight_to_jiamu r > 0) late_strong_table =
       map (\<lambda>r. weight_to_jiamu r > 0) late_weak_table"
    by (simp add: late_strong_table_def late_weak_table_def example_row_def)
  have c: "map character (centrality_top_10 late_strong_table) =
       [[0x41], [0x43], [0x44], [0x45], [0x46], [0x47], [0x48], [0x49], [0x4A], [0x4B]]"
    by (simp add: centrality_top_10_def head_def jiamu_related_def late_strong_table_def
        example_row_def)
  have d: "map character (valid_chars late_strong_table) =
       [[0x41], [0x43], [0x44], [0x45], [0x46], [0x47], [0x48], [0x49]]"
    by (simp add: valid_chars_def head_def late_strong_table_def example_row_def)
  have e: "hd (map character (top_10 stable_argsort late_strong_table)) = [0x4C]"
    by (simp add: top_10_def head_def sort_values_def stable_argsort_def jiamu_related_def
        late_strong_table_def example_row_def)
  show ?thesis
    using centrality_rows_in_table_order[of late_weak_table late_strong_table] a b c d e
    by simp
qed

section \<open>Graph reconstruction keeps the invariants\<close>

lemma wf_graph_empty: "wf_graph []"
  by (simp add: wf_graph_def)

lemma loop_free_empty: "loop_free []"
  by (simp add: loop_free_def)

lemma has_node_map_of: "has_node G n = (map_of G n \<noteq> None)"
  by (simp add: has_node_def map_of_eq_None_iff)

lemma has_node_add_node: "has_node (add_node G n) m = (m = n \<or> has_node G m)"
  by (auto simp: add_node_def has_node_def)

lemma map_of_add_node:
  "map_of (add_node G n) m = (if has_node G n then map_of G m
                              else if m = n then Some [] else map_of G m)"
  by (auto simp: add_node_def has_node_map_of map_add_def split: option.splits)

lemma keys_add_node: "fst ` set (add_node G n) = insert n (fst ` set G)"
  by (auto simp: add_node_def has_node_def)

lemma wf_graph_add_node:
  assumes "wf_graph G"
  shows "wf_graph (add_node G n)"
  unfolding wf_graph_def
proof (intro conjI allI impI)
  show "distinct (map fst (add_node G n))"
    using assms by (auto simp: wf_graph_def add_node_def has_node_def)
  fix m nbrs
  assume "map_of (add_node G n) m = Some nbrs"
  then have c: "nbrs = [] \<or> map_of G m = Some nbrs"
    by (auto simp: map_of_add_node split: if_splits)
  from c show "distinct (map fst nbrs)"
    using assms by (auto simp: wf_graph_def)
  from c show "fst ` set nbrs \<subseteq> fst ` set (add_node G n)"
  proof
    assume "nbrs = []"
    then show ?thesis by simp
  next
    assume "map_of G m = Some nbrs"
    then have "fst ` set nbrs \<subseteq> fst ` set G"
      using assms by (simp add: wf_graph_def)
    then show ?thesis unfolding keys_add_node by blast
  qed
qed

lemma loop_free_add_node: "loop_free G \<Longrightarrow> loop_free (add_node G n)"
  by (auto simp: loop_free_def map_of_add_node split: if_splits)

lemma keys_set_adj:
  "has_node G u \<Longrightarrow> fst ` set (set_adj G u v d) = fst ` set G"
  by (auto simp: set_adj_def has_node_def dom_update)

lemma has_node_set_adj: "has_node G u \<Longrightarrow> has_node (set_adj G u v d) m = has_node G m"
  using keys_set_adj[of G u v d] by (simp add: has_node_def)

lemma map_of_set_adj:
  "map_of (set_adj G u v d) m =
     (if m = u then Some (AList.update v d (adj G u)) else map_of G m)"
  by (simp add: set_adj_def update_conv')

lemma wf_graph_set_adj:
  assumes "wf_graph G" "has_node G u" "has_node G v"
  shows "wf_graph (set_adj G u v d)"
  unfolding wf_graph_def
proof (intro conjI allI impI)
  show "distinct (map fst (set_adj G u v d))"
    using assms(1) by (simp add: set_adj_def wf_graph_def distinct_update)
  obtain old where old: "map_of G u = Some old"
    using assms(2) by (auto simp: has_node_map_of)
  then have adj: "adj G u = old" by (simp add: adj_def)
  have oldwf: "distinct (map fst old)" "fst ` set old \<subseteq> fst ` set G"
    using assms(1) old by (auto simp: wf_graph_def)
  have vin: "v \<in> fst ` set G"
    using assms(3) by (simp add: has_node_def)
  fix m nbrs
  assume a: "map_of (set_adj G u v d) m = Some nbrs"
  show "distinct (map fst nbrs)"
  proof (cases "m = u")
    case True
    with a adj have "nbrs = AList.update v d old" by (simp add: map_of_set_adj)
    then show ?thesis using oldwf by (simp add: distinct_update)
  next
    case False
    with a have "map_of G m = Some nbrs" by (simp add: map_of_set_adj)
    then show ?thesis using assms(1) by (auto simp: wf_graph_def)
  qed
  show "fst ` set nbrs \<subseteq> fst ` set (set_adj G u v d)"
  proof (cases "m = u")
    case True
    with a adj have "nbrs = AList.update v d old" by (simp add: map_of_set_adj)
    then have "fst ` set nbrs = {v} \<union> fst ` set old" by (simp add: dom_update)
    then show ?thesis
      using oldwf vin unfolding keys_set_adj[OF assms(2)] by blast
  next
    case False
    with a have "map_of G m = Some nbrs" by (simp add: map_of_set_adj)
    then show ?thesis
      using assms(1) unfolding keys_set_adj[OF assms(2)] wf_graph_def by blast
  qed
qed

lemma loop_free_set_adj:
  assumes "loop_free G" "u \<noteq> v"
  shows "loop_free (set_adj G u v d)"
  unfolding loop_free_def
proof (intro allI impI)
  fix m nbrs
  assume a: "map_of (set_adj G u v d) m = Some nbrs"
  show "m \<notin> fst ` set nbrs"
  proof (cases "m = u")
    case True
    with a have "nbrs = AList.update v d (adj G u)"
      by (simp add: map_of_set_adj)
    then have n: "fst ` set nbrs = {v} \<union> fst ` set (adj G u)"
      by (simp add: dom_update)
    have "u \<notin> fst ` set (adj G u)"
    proof (cases "map_of G u")
      case None
      then show ?thesis by (simp add: adj_def)
    next
      case (Some old)
      then show ?thesis using assms(1) by (simp add: adj_def loop_free_def)
    qed
    with n True assms(2) show ?thesis by simp
  next
    case False
    with a have "map_of G m = Some nbrs" by (simp add: map_of_set_adj)
    then show ?thesis using assms(1) by (simp add: loop_free_def)
  qed
qed

lemma wf_graph_add_edge: "wf_graph G \<Longrightarrow> wf_graph (add_edge G u v w)"
  by (simp add: add_edge_def Let_def wf_graph_set_adj wf_graph_add_node has_node_set_adj
      has_node_add_node)

lemma loop_free_add_edge: "loop_free G \<Longrightarrow> u \<noteq> v \<Longrightarrow> loop_free (add_edge G u v w)"
  by (simp add: add_edge_def Let_def loop_free_set_adj loop_free_add_node)

lemma wf_graph_fold_nodes: "wf_graph G \<Longrightarrow> wf_graph (fold (\<lambda>n G. add_node G n) ns G)"
  by (induction ns arbitrary: G) (simp_all add: wf_graph_add_node)

lemma loop_free_fold_nodes: "loop_free G \<Longrightarrow> loop_free (fold (\<lambda>n G. add_node G n) ns G)"
  by (induction ns arbitrary: G) (simp_all add: loop_free_add_node)

lemma wf_graph_fold_links:
  "wf_graph G \<Longrightarrow> wf_graph (fold (\<lambda>l G. add_edge G (source l) (target l) (weight l)) ls G)"
  by (induction ls arbitrary: G) (simp_all add: wf_graph_add_edge)

lemma loop_free_fold_links:
  "loop_free G \<Longrightarrow> list_all (\<lambda>l. source l \<noteq> target l) ls \<Longrightarrow>
     loop_free (fold (\<lambda>l G. add_edge G (source l) (target l) (weight l)) ls G)"
  by (induction ls arbitrary: G) (simp_all add: loop_free_add_edge)

lemma wf_graph_node_link_graph: "wf_graph (node_link_graph d)"
  unfolding node_link_graph_def
  by (intro wf_graph_fold_links wf_graph_fold_nodes wf_graph_empty)

lemma loop_free_node_link_graph:
  "list_all (\<lambda>l. source l \<noteq> target l) (links d) \<Longrightarrow> loop_free (node_link_graph d)"
  unfolding node_link_graph_def
  by (intro loop_free_fold_links loop_free_fold_nodes loop_free_empty)

lemma entry_degree_nonneg: "0 \<le> entry_degree e"
  by (simp add: entry_degree_def)

lemma degree_sum_nonneg: "0 \<le> degree_sum G"
  unfolding degree_sum_def by (rule sum_list_nonneg) (auto simp: entry_degree_nonneg)

lemma entry_degree_bound:
  assumes "wf_graph G" "loop_free G" "e \<in> set G"
  shows "entry_degree e \<le> int (length G) - 1"
proof -
  obtain n nbrs where e: "e = (n, nbrs)" by (cases e)
  have dk: "distinct (map fst G)" using assms(1) by (simp add: wf_graph_def)
  then have m: "map_of G n = Some nbrs" using assms(3) e by simp
  have d: "distinct (map fst nbrs)" and s: "fst ` set nbrs \<subseteq> fst ` set G"
    using assms(1) m by (auto simp: wf_graph_def)
  have nl: "n \<notin> fst ` set nbrs" using assms(2) m by (auto simp: loop_free_def)
  have nin: "n \<in> fst ` set G" using assms(3) e by force
  have "length nbrs = card (fst ` set nbrs)"
    using d by (metis distinct_card length_map set_map)
  also have "\<dots> \<le> card (fst ` set G - {n})"
    using s nl by (intro card_mono) auto
  also have "\<dots> = length G - 1"
    using dk nin by (metis card_Diff_singleton distinct_card length_map set_map)
  finally have "length nbrs \<le> length G - 1" .
  moreover have "length G \<ge> 1" using assms(3) by (cases G) auto
  ultimately show ?thesis using nl by (simp add: e entry_degree_def)
qed

lemma sum_list_bounded:
  "(\<And>x. x \<in> set xs \<Longrightarrow> f x \<le> (c::int)) \<Longrightarrow> sum_list (map f xs) \<le> int (length xs) * c"
  by (induction xs) (auto simp: algebra_simps add_mono)

lemma degree_sum_bound:
  assumes "wf_graph G" "loop_free G"
  shows "degree_sum G \<le> number_of_nodes G * (number_of_nodes G - 1)"
  unfolding degree_sum_def number_of_nodes_def
  by (rule sum_list_bounded) (rule entry_degree_bound[OF assms])

lemma density_nonneg: "0 \<le> density G"
proof -
  have "0 \<le> number_of_edges G"
    using degree_sum_nonneg[of G] by (simp add: number_of_edges_def)
  moreover have "\<not> number_of_nodes G \<le> 1 \<Longrightarrow> 0 \<le> number_of_nodes G * (number_of_nodes G - 1)"
    by simp
  ultimately show ?thesis
    by (auto simp: density_def Let_def intro!: divide_nonneg_nonneg mult_nonneg_nonneg)
qed

lemma density_le_one:
  assumes "wf_graph G" "loop_free G"
  shows "density G \<le> 1"
proof (cases "number_of_edges G = 0 \<or> number_of_nodes G \<le> 1")
  case True
  then show ?thesis by (auto simp: density_def Let_def)
next
  case False
  define n where "n = number_of_nodes G"
  define m where "m = number_of_edges G"
  have pos: "0 < real_of_int (n * (n - 1))" using False unfolding n_def by simp
  have "2 * m \<le> degree_sum G" by (simp add: number_of_edges_def m_def)
  also have "\<dots> \<le> n * (n - 1)" unfolding n_def by (rule degree_sum_bound[OF assms])
  finally have "real_of_int (2 * m) \<le> real_of_int (n * (n - 1))"
    by (simp only: of_int_le_iff)
  then have "real_of_int (2 * m) / real_of_int (n * (n - 1)) \<le> 1"
    using pos by (simp only: divide_le_eq_1_pos)
  moreover have "real_of_int m / real_of_int (n * (n - 1)) * 2 =
     real_of_int (2 * m) / real_of_int (n * (n - 1))"
    by simp
  ultimately have "real_of_int m / real_of_int (n * (n - 1)) * 2 \<le> 1"
    by (simp only:)
  then show ?thesis using False by (simp add: density_def Let_def n_def m_def)
qed

section \<open>Density\<close>

lemma names_distinct [simp]:
  "jiamu \<noteq> lin_daiyu" "lin_daiyu \<noteq> jiamu" "jiamu \<noteq> xue_baochai" "xue_baochai \<noteq> jiamu"
  "lin_daiyu \<noteq> xue_baochai" "xue_baochai \<noteq> lin_daiyu"
  by (simp_all add: jiamu_def lin_daiyu_def xue_baochai_def)

lemma scenario_graph:
  "node_link_graph scenario_network =
     [(jiamu, [(lin_daiyu, Some 3), (xue_baochai, Some 5)]),
      (lin_daiyu, [(jiamu, Some 3)]),
      (xue_baochai, [(jiamu, Some 5)])]"
  by (simp add: node_link_graph_def scenario_network_def add_node_def has_node_def add_edge_def
      set_adj_def adj_def Let_def)

lemma self_loop_graph:
  "node_link_graph self_loop_network =
     [(jiamu, [(jiamu, Some 1), (lin_daiyu, Some 3)]),
      (lin_daiyu, [(jiamu, Some 3)])]"
  by (simp add: node_link_graph_def self_loop_network_def add_node_def has_node_def add_edge_def
      set_adj_def adj_def Let_def)

text \<open>
  C9, as the claim states it, fails on the upper bound: networkx counts a self-loop as an
  edge, so a graph with self-loops can have more edges than pairs of nodes. With two nodes
  and the links focal-focal and focal-neighbour there are 2 edges and the density is 2.
\<close>

theorem density_self_loop_counterexample:
  "number_of_nodes (node_link_graph self_loop_network) = 2
   \<and> number_of_edges (node_link_graph self_loop_network) = 2
   \<and> density (node_link_graph self_loop_network) = 2
   \<and> \<not> density (node_link_graph self_loop_network) \<le> 1"
  by (simp add: self_loop_graph density_def number_of_nodes_def number_of_edges_def
      degree_sum_def entry_degree_def)

text \<open>
  C9, amended. For every loaded graph with N nodes and E edges the density is 0 when
  N is at most 1, equals 2E / (N(N-1)) when N is above 1, and is never negative; it is
  at most 1 when no link of the snapshot joins a node to itself.
\<close>

theorem density_simple_graph:
  "(number_of_nodes (node_link_graph d) \<le> 1 \<longrightarrow> density (node_link_graph d) = 0)
   \<and> (1 < number_of_nodes (node_link_graph d) \<longrightarrow>
        density (node_link_graph d) =
          2 * real_of_int (number_of_edges (node_link_graph d)) /
            real_of_int (number_of_nodes (node_link_graph d)
                         * (number_of_nodes (node_link_graph d) - 1)))
   \<and> 0 \<le> density (node_link_graph d)
   \<and> (list_all (\<lambda>l. source l \<noteq> target l) (links d) \<longrightarrow> density (node_link_graph d) \<le> 1)"
proof -
  have a: "number_of_nodes G \<le> 1 \<Longrightarrow> density G = 0" for G
    by (simp add: density_def Let_def)
  have b: "1 < number_of_nodes G \<Longrightarrow>
      density G = 2 * real_of_int (number_of_edges G) /
            real_of_int (number_of_nodes G * (number_of_nodes G - 1))" for G
    by (simp add: density_def Let_def)
  have c: "list_all (\<lambda>l. source l \<noteq> target l) (links d) \<Longrightarrow> density (node_link_graph d) \<le> 1"
    by (intro density_le_one wf_graph_node_link_graph loop_free_node_link_graph)
  show ?thesis
    using a[of "node_link_graph d"] b[of "node_link_graph d"] c density_nonneg
    by blast
qed

theorem density_simple_graph_witness:
  "list_all (\<lambda>l. source l \<noteq> target l) (links scenario_network)
   \<and> number_of_nodes (node_link_graph scenario_network) = 3
   \<and> number_of_edges (node_link_graph scenario_network) = 2
   \<and> density (node_link_graph scenario_network) = 2 / 3
   \<and> 0 \<le> density (node_link_graph scenario_network)
   \<and> density (node_link_graph scenario_network) \<le> 1"
proof -
  have h: "list_all (\<lambda>l. source l \<noteq> target l) (links scenario_network)"
    by (simp add: scenario_network_def)
  have n: "number_of_nodes (node_link_graph scenario_network) = 3"
    by (simp add: scenario_graph number_of_nodes_def)
  have e: "number_of_edges (node_link_graph scenario_network) = 2"
    by (simp add: scenario_graph number_of_edges_def degree_sum_def entry_degree_def)
  show ?thesis
    using density_simple_graph[of scenario_network] h n e by simp
qed

section \<open>Properties of the layout view\<close>

lemma update_fresh: "k \<notin> fst ` set al \<Longrightarrow> AList.update k v al = al @ [(k, v)]"
  by (induction al) auto

lemma place_fresh:
  "distinct (map snd es) \<Longrightarrow> snd ` set es \<inter> fst ` set pos = {} \<Longrightarrow>
     place step es pos =
       pos @ map (\<lambda>(i, node). (node, radius * cos (real i * step), radius * sin (real i * step))) es"
proof (induction es arbitrary: pos)
  case Nil
  then show ?case by simp
next
  case (Cons e es)
  obtain i node where e: "e = (i, node)" by (cases e)
  have fresh: "node \<notin> fst ` set pos" using Cons.prems(2) e by auto
  have d: "distinct (map snd es)" and nn: "node \<notin> snd ` set es"
    using Cons.prems(1) e by auto
  have disj: "snd ` set es \<inter> fst ` set (pos @ [(node, radius * cos (real i * step), radius * sin (real i * step))]) = {}"
    using Cons.prems(2) nn by auto
  show ?case
    using Cons.IH[OF d disj] by (simp add: e Let_def update_fresh[OF fresh])
qed

lemma circular_layout_fresh:
  assumes "distinct nbrs" "jiamu \<notin> set nbrs"
  shows "circular_layout nbrs =
     (jiamu, (0, 0)) #
       map (\<lambda>(i, node). (node, radius * cos (real i * (2 * pi / real (length nbrs))),
                                radius * sin (real i * (2 * pi / real (length nbrs)))))
         (enumerate 0 nbrs)"
proof -
  have "distinct (map snd (enumerate 0 nbrs))" using assms(1) by simp
  moreover have "snd ` set (enumerate 0 nbrs) \<inter> fst ` set [(jiamu, (0::real, 0::real))] = {}"
    using assms(2) by (metis Int_insert_right_if0 Int_empty_right list.set(1) list.simps(15)
        image_insert image_empty fst_conv map_snd_enumerate set_map)
  ultimately show ?thesis
    by (simp add: circular_layout_def Let_def place_fresh)
qed

lemma on_circle: "(radius * cos a)\<^sup>2 + (radius * sin a)\<^sup>2 = radius\<^sup>2"
proof -
  have "(radius * cos a)\<^sup>2 + (radius * sin a)\<^sup>2 = radius\<^sup>2 * ((cos a)\<^sup>2 + (sin a)\<^sup>2)"
    by (simp only: power_mult_distrib distrib_left)
  then show ?thesis by simp
qed

lemma neighbors_distinct:
  assumes "wf_graph G" "neighbors G n = Inr nbrs"
  shows "distinct nbrs"
  using assms by (auto simp: neighbors_def wf_graph_def split: option.splits)

lemma neighbors_loop_free:
  assumes "loop_free G" "neighbors G n = Inr nbrs"
  shows "n \<notin> set nbrs"
  using assms by (auto simp: neighbors_def loop_free_def split: option.splits)

lemma layout_without_self_loop:
  assumes "wf_graph G" "loop_free G" "neighbors G jiamu = Inr nbrs" "i < length nbrs"
  defines "a \<equiv> real i * (2 * pi / real (length nbrs))"
  shows "map_of (circular_layout nbrs) jiamu = Some (0, 0)"
    and "map_of (circular_layout nbrs) (nbrs ! i) = Some (radius * cos a, radius * sin a)"
    and "(radius * cos a)\<^sup>2 + (radius * sin a)\<^sup>2 = radius\<^sup>2"
proof -
  have d: "distinct nbrs" and nj: "jiamu \<notin> set nbrs"
    using assms neighbors_distinct neighbors_loop_free by auto
  let ?f = "\<lambda>(i, node). (node, radius * cos (real i * (2 * pi / real (length nbrs))),
                                radius * sin (real i * (2 * pi / real (length nbrs))))"
  have lay: "circular_layout nbrs = (jiamu, (0, 0)) # map ?f (enumerate 0 nbrs)"
    by (rule circular_layout_fresh[OF d nj])
  show "map_of (circular_layout nbrs) jiamu = Some (0, 0)"
    by (simp add: lay)
  have keys: "map fst (map ?f (enumerate 0 nbrs)) = nbrs"
    by (simp add: enumerate_eq_zip map_fst_zip_take case_prod_unfold comp_def flip: zip_map2)
  have mem: "(nbrs ! i, radius * cos a, radius * sin a) \<in> set (map ?f (enumerate 0 nbrs))"
  proof -
    have "(i, nbrs ! i) \<in> set (enumerate 0 nbrs)"
      using assms(4) by (auto simp: in_set_enumerate_eq)
    then have "?f (i, nbrs ! i) \<in> set (map ?f (enumerate 0 nbrs))"
      unfolding set_map by (rule imageI)
    then show ?thesis by (simp add: a_def)
  qed
  have "map_of (map ?f (enumerate 0 nbrs)) (nbrs ! i) = Some (radius * cos a, radius * sin a)"
    using mem d keys by (intro map_of_is_SomeI) simp_all
  moreover have "nbrs ! i \<noteq> jiamu" using nj assms(4) by (metis nth_mem)
  ultimately show "map_of (circular_layout nbrs) (nbrs ! i) = Some (radius * cos a, radius * sin a)"
    by (simp add: lay)
  show "(radius * cos a)\<^sup>2 + (radius * sin a)\<^sup>2 = radius\<^sup>2"
    by (rule on_circle)
qed

lemma no_focal_graph:
  "node_link_graph no_focal_network =
     [(lin_daiyu, [(xue_baochai, Some 1)]), (xue_baochai, [(lin_daiyu, Some 1)])]"
  by (simp add: node_link_graph_def no_focal_network_def add_node_def has_node_def add_edge_def
      set_adj_def adj_def Let_def)

lemma isolated_graph:
  "node_link_graph isolated_network =
     [(jiamu, []), (lin_daiyu, [(xue_baochai, Some 1)]), (xue_baochai, [(lin_daiyu, Some 1)])]"
  by (simp add: node_link_graph_def isolated_network_def add_node_def has_node_def add_edge_def
      set_adj_def adj_def Let_def)

lemma empty_graph: "node_link_graph empty_network = []"
  by (simp add: node_link_graph_def empty_network_def)

lemma load_data_page_snapshot_of:
  "self_G (load_data_page (Parsed (snapshot_of nl))) = Some (node_link_graph nl)"
  "self_metrics (load_data_page (Parsed (snapshot_of nl))) = Attr (Some example_centrality)"
  by (simp_all add: load_data_page_def snapshot_of_def)

lemma load_data_new_snapshot_of:
  "self_G (load_data_new True (Parsed (snapshot_of nl))) = Some (node_link_graph nl)"
  "self_data_loaded (load_data_new True (Parsed (snapshot_of nl)))"
  by (simp_all add: load_data_new_def snapshot_of_def)

lemma neighbors_absent: "\<not> has_node G n \<Longrightarrow> neighbors G n = Inl NetworkXError"
  by (simp add: neighbors_def has_node_map_of)

lemma neighbors_present: "has_node G n \<Longrightarrow> \<exists>nbrs. neighbors G n = Inr nbrs"
  by (auto simp: neighbors_def has_node_map_of)

lemma plot_absent_focal_raises:
  "self_G self = Some G \<Longrightarrow> \<not> has_node G jiamu \<Longrightarrow>
     create_central_network_plot self = Raises NetworkXError"
  by (simp add: create_central_network_plot_def neighbors_absent)

lemma plot_isolated_reports:
  "self_G self = Some G \<Longrightarrow> neighbors G jiamu = Inr [] \<Longrightarrow>
     create_central_network_plot self = Reports NoNeighbors"
  by (simp add: create_central_network_plot_def)

lemma simple_viz_absent_focal_reports:
  "\<not> has_node G jiamu \<Longrightarrow>
     show_simple_network_viz True True (Some G) = Reports NetworkIncomplete"
  by (simp add: show_simple_network_viz_def)

lemma simple_viz_isolated_reports:
  "neighbors G jiamu = Inr [] \<Longrightarrow>
     show_simple_network_viz True True (Some G) = Reports NoNeighbors"
  by (auto simp: show_simple_network_viz_def neighbors_def has_node_map_of split: option.splits)

lemma simple_viz_never_networkx_error:
  "show_simple_network_viz p l G \<noteq> Raises NetworkXError"
proof -
  have "neighbor_data c g ns \<noteq> Inl NetworkXError" for c :: "ustr \<Rightarrow> ustr" and g ns
    by (induction ns) (auto simp: edge_weight_def split: option.splits sum.splits)
  then show ?thesis
    by (auto simp: show_simple_network_viz_def neighbors_def has_node_map_of
        split: option.splits sum.splits)
qed

text \<open>
  C1, evaluated where the code departs from it. A focal node with a link to itself is one
  of its own neighbours, so the loop over the neighbours overwrites the position
  \<open>(0, 0)\<close> stored for it: with the neighbours (focal, one other) the focal node is drawn
  at \<open>(2, 0)\<close> on the circle and the other node at \<open>(-2, 0)\<close>. Without a self-loop the
  layout is the one the claim describes (\<open>layout_without_self_loop\<close>).
\<close>

theorem self_loop_moves_focal_node:
  "neighbors (node_link_graph self_loop_network) jiamu = Inr [jiamu, lin_daiyu]
   \<and> create_central_network_plot (load_data_page (Parsed (snapshot_of self_loop_network))) =
       Returns [(jiamu, (2, 0)), (lin_daiyu, (- 2, 0))]"
  by (simp add: create_central_network_plot_def load_data_page_snapshot_of self_loop_graph
      neighbors_def circular_layout_def enumerate_eq_zip radius_def edge_weight_def)

text \<open>
  C6, evaluated where the code departs from it. \<^verbatim>\<open>create_central_network_plot\<close> asks
  for the neighbours of the focal node without checking that the node is in the graph, and
  networkx raises \<^verbatim>\<open>NetworkXError\<close>; \<^verbatim>\<open>show_simple_network_viz\<close> checks first and
  reports. A focal node without neighbours is reported by both.
\<close>

theorem missing_focal_node_raises:
  "create_central_network_plot (load_data_page (Parsed (snapshot_of no_focal_network))) =
     Raises NetworkXError
   \<and> show_simple_network_viz True True (Some (node_link_graph no_focal_network)) =
     Reports NetworkIncomplete
   \<and> create_central_network_plot (load_data_page (Parsed (snapshot_of isolated_network))) =
     Reports NoNeighbors
   \<and> show_simple_network_viz True True (Some (node_link_graph isolated_network)) =
     Reports NoNeighbors"
  by (simp add: create_central_network_plot_def load_data_page_snapshot_of no_focal_graph
      isolated_graph neighbors_def show_simple_network_viz_def has_node_def)

text \<open>
  The guards of both views are passed at these inputs: the data is loaded, the graph is
  there, and only the focal node is missing.
\<close>

theorem missing_focal_node_witness:
  "self_G (load_data_page (Parsed (snapshot_of no_focal_network))) =
     Some (node_link_graph no_focal_network)
   \<and> has_node (node_link_graph no_focal_network) jiamu = False
   \<and> create_central_network_plot (load_data_page (Parsed (snapshot_of no_focal_network))) =
     Raises NetworkXError
   \<and> show_simple_network_viz True True (Some (node_link_graph no_focal_network)) =
     Reports NetworkIncomplete"
  using missing_focal_node_raises
  by (simp add: load_data_page_snapshot_of no_focal_graph has_node_def)

section \<open>Properties of the aggregation\<close>

lemma sum_groups:
  fixes w :: "'a \<Rightarrow> real"
  assumes "finite K" "key ` set rows \<subseteq> K"
  shows "(\<Sum>k\<in>K. sum_list (map w (filter (\<lambda>r. key r = k) rows))) = sum_list (map w rows)"
  using assms(2)
proof (induction rows)
  case Nil
  then show ?case by simp
next
  case (Cons r rows)
  have inK: "key r \<in> K" using Cons.prems by simp
  have "(\<Sum>k\<in>K. sum_list (map w (filter (\<lambda>r. key r = k) (r # rows)))) =
        (\<Sum>k\<in>K. (if key r = k then w r else 0) + sum_list (map w (filter (\<lambda>r. key r = k) rows)))"
    by (intro sum.cong) auto
  also have "\<dots> = (\<Sum>k\<in>K. if key r = k then w r else 0)
                  + (\<Sum>k\<in>K. sum_list (map w (filter (\<lambda>r. key r = k) rows)))"
    by (rule sum.distrib)
  also have "(\<Sum>k\<in>K. if key r = k then w r else 0) = w r"
    using assms(1) inK by simp
  also have "(\<Sum>k\<in>K. sum_list (map w (filter (\<lambda>r. key r = k) rows))) = sum_list (map w rows)"
    using Cons by simp
  finally show ?case by simp
qed

lemma groupby_sum_keys:
  "map fst (groupby_sum rows) = sort (remdups (map (\<lambda>r. snd (snd r)) rows))"
  by (simp add: groupby_sum_def comp_def)

lemma groupby_sum_total:
  "sum_list (map snd (groupby_sum rows)) = sum_list (map (\<lambda>r. fst (snd r)) rows)"
proof -
  let ?ks = "sort (remdups (map (\<lambda>r. snd (snd r)) rows))"
  have d: "distinct ?ks" by simp
  have "sum_list (map snd (groupby_sum rows)) =
        sum_list (map (\<lambda>k. sum_list (map (\<lambda>r. fst (snd r)) (filter (\<lambda>r. snd (snd r) = k) rows))) ?ks)"
    by (simp add: groupby_sum_def comp_def)
  also have "\<dots> = (\<Sum>k\<in>set ?ks. sum_list (map (\<lambda>r. fst (snd r)) (filter (\<lambda>r. snd (snd r) = k) rows)))"
    using d by (rule sum_list_distinct_conv_sum_set)
  also have "\<dots> = sum_list (map (\<lambda>r. fst (snd r)) rows)"
    by (rule sum_groups) auto
  finally show ?thesis .
qed

lemma groupby_sum_key_set:
  "fst ` set (groupby_sum rows) = (\<lambda>r. snd (snd r)) ` set rows"
  using arg_cong[OF groupby_sum_keys[of rows], of set] by simp

lemma network_visualization_sums:
  assumes "show_network_visualization nx self = Returns (Some (type_summary, df_neighbors))"
  shows "sum_list (map snd type_summary) = sum_list (map (\<lambda>r. fst (snd r)) df_neighbors)"
    and "fst ` set type_summary = (\<lambda>r. snd (snd r)) ` set df_neighbors"
    and "df_neighbors \<noteq> []"
proof -
  have "type_summary = groupby_sum df_neighbors \<and> df_neighbors \<noteq> []"
    using assms
    by (auto simp: show_network_visualization_def
        split: if_splits option.splits sum.splits)
  then show "sum_list (map snd type_summary) = sum_list (map (\<lambda>r. fst (snd r)) df_neighbors)"
    and "fst ` set type_summary = (\<lambda>r. snd (snd r)) ` set df_neighbors"
    and "df_neighbors \<noteq> []"
    by (simp_all add: groupby_sum_total groupby_sum_key_set)
qed

lemma simple_network_viz_sums:
  assumes "show_simple_network_viz p l G = Returns (type_summary, df_neighbors)"
  shows "sum_list (map snd type_summary) = sum_list (map (\<lambda>r. fst (snd r)) df_neighbors)"
    and "fst ` set type_summary = (\<lambda>r. snd (snd r)) ` set df_neighbors"
proof -
  have "type_summary = groupby_sum df_neighbors"
    using assms
    by (auto simp: show_simple_network_viz_def
        split: if_splits option.splits sum.splits)
  then show "sum_list (map snd type_summary) = sum_list (map (\<lambda>r. fst (snd r)) df_neighbors)"
    and "fst ` set type_summary = (\<lambda>r. snd (snd r)) ` set df_neighbors"
    by (simp_all add: groupby_sum_total groupby_sum_key_set)
qed

text \<open>
  C5, evaluated where the code departs from it. For a focal node without neighbours
  \<^verbatim>\<open>show_network_visualization\<close> builds an empty \<^verbatim>\<open>DataFrame\<close> and groups it by a
  column it does not have, which raises \<^verbatim>\<open>KeyError\<close>, where the claim has the empty
  mapping; \<^verbatim>\<open>show_simple_network_viz\<close> returns before grouping. Whenever a summary is
  produced its sums add up to the total weight and its keys are exactly the types that
  occur (\<open>network_visualization_sums\<close>, \<open>simple_network_viz_sums\<close>).
\<close>

theorem isolated_focal_node_raises:
  "neighbors (node_link_graph isolated_network) jiamu = Inr []
   \<and> show_network_visualization True (load_data_new True (Parsed (snapshot_of isolated_network))) =
       Raises KeyError
   \<and> show_simple_network_viz True True (Some (node_link_graph isolated_network)) =
       Reports NoNeighbors"
  by (simp add: show_network_visualization_def load_data_new_snapshot_of isolated_graph
      neighbors_def truthy_graph_def has_node_def show_simple_network_viz_def)

text \<open>
  The guards of \<^verbatim>\<open>show_network_visualization\<close> are passed at this input: the data is
  loaded, the graph is there and non-empty, and the focal node is in it.
\<close>

theorem isolated_focal_node_witness:
  "self_data_loaded (load_data_new True (Parsed (snapshot_of isolated_network)))
   \<and> self_G (load_data_new True (Parsed (snapshot_of isolated_network))) =
       Some (node_link_graph isolated_network)
   \<and> has_node (node_link_graph isolated_network) jiamu
   \<and> show_network_visualization True (load_data_new True (Parsed (snapshot_of isolated_network))) =
       Raises KeyError"
  using isolated_focal_node_raises
  by (simp add: load_data_new_snapshot_of isolated_graph has_node_def)

section \<open>Loading the snapshot\<close>

lemma load_data_new_degrades:
  "self_data_loaded (load_data_new nx (Parsed d))"
  "self_load_error (load_data_new nx (Parsed d)) = None"
  "self_G (load_data_new True (Parsed d)) = map_option node_link_graph (network d)"
  "self_metrics (load_data_new nx (Parsed d)) \<noteq> Unset"
  "self_df_metrics (load_data_new nx (Parsed d)) =
     Attr (case df_metrics d of None \<Rightarrow> None | Some rows \<Rightarrow> dataframe_or_none rows)"
  "self_relationship_type_analysis (load_data_new nx (Parsed d)) \<noteq> Unset"
  by (simp_all add: load_data_new_def split: option.splits)

lemma load_data_page_needs_every_key:
  "self_load_error (load_data_page (Parsed d)) =
     (if network d = None \<or> metrics d = None \<or> df_metrics d = None then Some KeyError else None)"
  "self_G (load_data_page (Parsed d)) =
     (if network d = None \<or> metrics d = None \<or> df_metrics d = None then None
      else map_option node_link_graph (network d))"
  by (auto simp: load_data_page_def load_failed_def split: option.splits)

text \<open>
  C7, evaluated where the code departs from it. \<^verbatim>\<open>load_data\<close> of streamlit_page.py
  subscripts \<^verbatim>\<open>network\<close>, \<^verbatim>\<open>metrics\<close> and \<^verbatim>\<open>df_metrics\<close>: a snapshot without
  \<^verbatim>\<open>metrics\<close> is reported as a failed load and the graph it does contain is dropped.
  \<^verbatim>\<open>load_data\<close> of streamlit_page_new.py reads the same snapshot with \<^verbatim>\<open>.get\<close> and
  keeps the graph.
\<close>

theorem missing_metrics_fails_load:
  "load_data_page (Parsed no_metrics_snapshot) = load_failed KeyError Unset
   \<and> self_G (load_data_page (Parsed no_metrics_snapshot)) = None
   \<and> self_load_error (load_data_page (Parsed no_metrics_snapshot)) = Some KeyError
   \<and> self_G (load_data_new True (Parsed no_metrics_snapshot)) =
       Some (node_link_graph scenario_network)
   \<and> self_metrics (load_data_new True (Parsed no_metrics_snapshot)) = Attr None
   \<and> self_load_error (load_data_new True (Parsed no_metrics_snapshot)) = None"
  by (simp add: load_data_page_def load_data_new_def no_metrics_snapshot_def load_failed_def)

section \<open>Properties of the statistics views\<close>

lemma statistics_empty_graph_raises:
  "self_G self = Some [] \<Longrightarrow> display_network_statistics self = Raises ZeroDivisionError"
  by (simp add: display_network_statistics_def number_of_nodes_def py_truediv_def)

text \<open>
  C8, evaluated where the code departs from it. A snapshot whose network has no node
  loads, and \<^verbatim>\<open>display_network_statistics\<close> then divides the degree sum by a node
  count of 0: \<^verbatim>\<open>ZeroDivisionError\<close> escapes. \<^verbatim>\<open>show_network_overview\<close> of
  streamlit_page_new.py shows placeholders for the same snapshot, and reports that the
  data must be loaded when the file is missing.
\<close>

theorem empty_graph_divides_by_zero:
  "self_G (load_data_page (Parsed (snapshot_of empty_network))) = Some []
   \<and> display_network_statistics (load_data_page (Parsed (snapshot_of empty_network))) =
       Raises ZeroDivisionError
   \<and> show_network_overview (load_data_new True (Parsed (snapshot_of empty_network))) =
       Returns \<lparr>shown_nodes = None, shown_edges = None, shown_density = None,
                shown_degree = None\<rparr>"
  by (simp add: display_network_statistics_def load_data_page_snapshot_of empty_graph
      number_of_nodes_def py_truediv_def show_network_overview_def load_data_new_snapshot_of
      truthy_graph_def)

end
